theory Spec2Isabelle
  imports Main
begin

section \<open>JavaScript values\<close>

text \<open>
  The configuration engine of \<^verbatim>\<open>lib/config/configuration.js\<close> works on untyped
  JavaScript data, so the model starts with the values a configuration can hold.

  The engine does two things with an object it is given: it calls \<^verbatim>\<open>getOptionName()\<close> on
  it, and later \<^verbatim>\<open>configure(settings)\<close>. \<open>JRule r\<close> stands for every object whose
  \<^verbatim>\<open>getOptionName\<close> is callable: \<open>r\<close> is its identity and \<open>getOptionName r\<close> the name the
  call returns. Whether such an object has a \<^verbatim>\<open>configure\<close> method, and what the method does
  with the settings, is not written in this file; it is a parameter of the model (see
  \<open>host\<close> below). \<open>JObj\<close> stands for every other object: its members are data (none is
  callable), listed in the order \<^verbatim>\<open>Object.keys\<close> enumerates them. A function value is a plugin
  initialiser; what it does with the engine it receives is the list of registrations it
  performs. Numbers are the integers and \<^verbatim>\<open>NaN\<close>.
\<close>

datatype rule = Rule (ruleId: nat) (getOptionName: string)

datatype data =
    DUndefined
  | DNull
  | DBool bool
  | DNum int
  | DNaN
  | DStr string
  | DArr "data list"
  | DObj "(string \<times> data) list"

datatype jsval =
    JUndefined
  | JNull
  | JBool bool
  | JNum int
  | JNaN
  | JStr string
  | JArr "jsval list"
  | JObj "(string \<times> data) list"
  | JFun "action list"
  | JRule rule
and action =
    RegisterRule rule
  | RegisterPreset string jsval

text \<open>A configuration, and the rule settings made from it: the own properties in the order
  \<^verbatim>\<open>Object.keys\<close> enumerates them.\<close>

type_synonym obj = "(string \<times> jsval) list"

text \<open>\<^verbatim>\<open>if (v)\<close>, \<^verbatim>\<open>Boolean(v)\<close> and \<^verbatim>\<open>!v\<close>: the falsy values are \<^verbatim>\<open>undefined\<close>,
  \<^verbatim>\<open>null\<close>, \<^verbatim>\<open>false\<close>, \<^verbatim>\<open>0\<close>, \<^verbatim>\<open>NaN\<close> and the empty string.\<close>

fun truthy :: "jsval \<Rightarrow> bool" where
  "truthy JUndefined = False"
| "truthy JNull = False"
| "truthy (JBool b) = b"
| "truthy (JNum n) = (n \<noteq> 0)"
| "truthy JNaN = False"
| "truthy (JStr s) = (s \<noteq> [])"
| "truthy (JArr xs) = True"
| "truthy (JObj ps) = True"
| "truthy (JFun acts) = True"
| "truthy (JRule r) = True"

fun truthyData :: "data \<Rightarrow> bool" where
  "truthyData DUndefined = False"
| "truthyData DNull = False"
| "truthyData (DBool b) = b"
| "truthyData (DNum n) = (n \<noteq> 0)"
| "truthyData DNaN = False"
| "truthyData (DStr s) = (s \<noteq> [])"
| "truthyData (DArr xs) = True"
| "truthyData (DObj ps) = True"

fun typeof :: "jsval \<Rightarrow> string" where
  "typeof JUndefined = ''undefined''"
| "typeof JNull = ''object''"
| "typeof (JBool b) = ''boolean''"
| "typeof (JNum n) = ''number''"
| "typeof JNaN = ''number''"
| "typeof (JStr s) = ''string''"
| "typeof (JArr xs) = ''object''"
| "typeof (JObj ps) = ''object''"
| "typeof (JFun acts) = ''function''"
| "typeof (JRule r) = ''object''"

fun isArray :: "jsval \<Rightarrow> bool" where
  "isArray (JArr xs) = True"
| "isArray v = False"

text \<open>Reading a property of a configuration: its own value, \<^verbatim>\<open>undefined\<close> when it has
  none. (The engine reads \<^verbatim>\<open>config.plugins\<close>, \<^verbatim>\<open>config.preset\<close>, ... and \<^verbatim>\<open>config[key]\<close>
  for an own key; none of these names is a member of \<^verbatim>\<open>Object.prototype\<close>.)\<close>

definition get :: "obj \<Rightarrow> string \<Rightarrow> jsval" where
  "get ob key = (case map_of ob key of Some v \<Rightarrow> v | None \<Rightarrow> JUndefined)"

definition keys :: "obj \<Rightarrow> string list" where
  "keys ob = map fst ob"

text \<open>\<^verbatim>\<open>ob[key] = v\<close>: an existing property keeps its place, a new one is enumerated last.\<close>

fun put :: "string \<Rightarrow> jsval \<Rightarrow> obj \<Rightarrow> obj" where
  "put key v [] = [(key, v)]"
| "put key v ((k, w) # ps) = (if k = key then (k, v) # ps else (k, w) # put key v ps)"

text \<open>\<^verbatim>\<open>Array.prototype.join\<close> on an array of strings.\<close>

fun join :: "string \<Rightarrow> string list \<Rightarrow> string" where
  "join sep [] = []"
| "join sep [x] = x"
| "join sep (x # y # ys) = x @ sep @ join sep (y # ys)"

text \<open>
  \<^verbatim>\<open>BUILTIN_OPTIONS\<close>, \<^verbatim>\<open>this._rules\<close> and \<^verbatim>\<open>this._presets\<close> are object literals used as
  lookup tables. A read \<^verbatim>\<open>table[key]\<close> that finds no own property continues in the table's
  prototype. That is \<^verbatim>\<open>Object.prototype\<close>, whose members are functions (and the object behind
  \<^verbatim>\<open>__proto__\<close>), all truthy, unless an assignment \<^verbatim>\<open>table['__proto__'] = object\<close> has put
  another object in its place.
\<close>

definition Object_prototype :: "string list" where
  "Object_prototype =
     [''constructor'', ''toString'', ''toLocaleString'', ''valueOf'', ''hasOwnProperty'',
      ''isPrototypeOf'', ''propertyIsEnumerable'', ''__proto__'', ''__defineGetter__'',
      ''__defineSetter__'', ''__lookupGetter__'', ''__lookupSetter__'']"

section \<open>The engine\<close>

text \<open>What the engine throws: the \<^verbatim>\<open>AssertionError\<close> of a failed \<^verbatim>\<open>assert\<close> and the
  \<^verbatim>\<open>Error\<close> of \<^verbatim>\<open>load\<close>, each with its message, and the \<^verbatim>\<open>TypeError\<close> of the host,
  which the model labels with the expression that throws it. A rule's \<^verbatim>\<open>configure\<close> throws
  what it likes.\<close>

datatype error =
    AssertionError string
  | TypeError string
  | Error string

text \<open>
  What a read \<^verbatim>\<open>table[name]\<close> of a registry yields, as far as the engine can tell: a
  truthy object whose \<^verbatim>\<open>configure\<close> can be called (\<open>Value\<close>), another truthy value, such
  as a function or a string, on which the call \<^verbatim>\<open>.configure(...)\<close> throws a \<^verbatim>\<open>TypeError\<close>
  (\<open>Truthy\<close>), or \<^verbatim>\<open>undefined\<close> or another falsy value (\<open>Nothing\<close>).
\<close>

datatype lookup = Value rule | Truthy | Nothing

text \<open>
  The objects the engine is handed are written elsewhere (the rules under \<^verbatim>\<open>lib/rules\<close>,
  the rules and presets of plugins), so what their members do is a parameter of the model:
  \<^item> \<open>configureThrows h r settings\<close> is the exception that the call
    \<^verbatim>\<open>r.configure(settings)\<close> ends with, \<open>None\<close> when the call returns. An object without a
    \<^verbatim>\<open>configure\<close> method answers every call with a \<^verbatim>\<open>TypeError\<close>.
  \<^item> \<open>member h v name\<close> is what the read \<^verbatim>\<open>v[name]\<close> yields on an object \<open>v\<close>, through
    the prototypes of \<open>v\<close>. The engine makes such a read only on an object that has
    become the prototype of a registry.
\<close>

record host =
  configureThrows :: "rule \<Rightarrow> jsval \<Rightarrow> error option"
  member :: "jsval \<Rightarrow> string \<Rightarrow> lookup"

text \<open>The host of the examples. A rule accepts the setting \<^verbatim>\<open>true\<close> and nothing else, as
  the rules with a boolean option do (\<^verbatim>\<open>assert(value === true, ...)\<close>), and has the members
  \<^verbatim>\<open>getOptionName\<close> and \<^verbatim>\<open>configure\<close>, both functions, besides those of
  \<^verbatim>\<open>Object.prototype\<close>; any other object has the members of \<^verbatim>\<open>Object.prototype\<close> only.\<close>

definition requireTrue :: host where
  "requireTrue =
     \<lparr> configureThrows =
         (\<lambda>r settings. if settings = JBool True then None
                        else Some (AssertionError (getOptionName r @ '' option requires true value''))),
       member =
         (\<lambda>v name. case v of
                      JRule r \<Rightarrow>
                        (if name \<in> set ([''getOptionName'', ''configure''] @ Object_prototype)
                         then Truthy else Nothing)
                    | _ \<Rightarrow> (if name \<in> set Object_prototype then Truthy else Nothing)) \<rparr>"

text \<open>
  The five fields the constructor initialises. \<open>configuredRules\<close> is \<open>None\<close> when the
  field holds \<^verbatim>\<open>undefined\<close>. A registry maps the names of its own properties to their
  values; the name \<^verbatim>\<open>__proto__\<close> is never the name of an own property, and what the registry
  holds there is its prototype when that has been replaced. \<open>configureCalls\<close> is the record of
  the effect the engine has on the rules: every call \<^verbatim>\<open>rule.configure(settings)\<close> it made,
  oldest first, the call that threw included.
\<close>

record engine =
  presets :: "string \<rightharpoonup> jsval"
  rules :: "string \<rightharpoonup> rule"
  configuredRules :: "rule list option"
  fileExtensions :: "jsval list"
  excludedFiles :: "jsval list"
  configureCalls :: "(rule \<times> jsval) list"

type_synonym 'a result = "(error + 'a) \<times> engine"

definition Configuration :: engine where
  "Configuration =
     \<lparr> presets = Map.empty, rules = Map.empty, configuredRules = Some [],
       fileExtensions = [JStr ''.js''], excludedFiles = [], configureCalls = [] \<rparr>"

definition BUILTIN_OPTIONS :: "string list" where
  "BUILTIN_OPTIONS =
     [''plugins'', ''preset'', ''excludeFiles'', ''additionalRules'', ''fileExtensions'']"

text \<open>The truth value of \<^verbatim>\<open>BUILTIN_OPTIONS[key]\<close>.\<close>

definition builtinOption :: "string \<Rightarrow> bool" where
  "builtinOption key = (key \<in> set BUILTIN_OPTIONS \<or> key \<in> set Object_prototype)"

definition getConfiguredRules :: "engine \<Rightarrow> rule list option" where
  "getConfiguredRules s = configuredRules s"

definition getExcludedFiles :: "engine \<Rightarrow> jsval list" where
  "getExcludedFiles s = excludedFiles s"

definition getFileExtensions :: "engine \<Rightarrow> jsval list" where
  "getFileExtensions s = fileExtensions s"

text \<open>\<^verbatim>\<open>this._rules[rule.getOptionName()] = rule\<close>. A rule is an object, so for the name
  \<^verbatim>\<open>__proto__\<close> the assignment makes the rule the prototype of \<^verbatim>\<open>_rules\<close>.\<close>

definition registerRule :: "rule \<Rightarrow> engine \<Rightarrow> engine" where
  "registerRule r s = s\<lparr>rules := (rules s)(getOptionName r \<mapsto> r)\<rparr>"

text \<open>\<^verbatim>\<open>this._presets[presetName] = presetConfig\<close>. For the name \<^verbatim>\<open>__proto__\<close> the
  assignment replaces the prototype of \<^verbatim>\<open>_presets\<close> when the value is an object or \<^verbatim>\<open>null\<close>,
  and does nothing when it is a primitive.\<close>

definition registerPreset :: "string \<Rightarrow> jsval \<Rightarrow> engine \<Rightarrow> engine" where
  "registerPreset presetName presetConfig s =
     (if presetName = ''__proto__'' \<and> typeof presetConfig \<noteq> ''object''
         \<and> typeof presetConfig \<noteq> ''function''
      then s
      else s\<lparr>presets := (presets s)(presetName \<mapsto> presetConfig)\<rparr>)"

text \<open>\<^verbatim>\<open>rule.configure(settings)\<close>: the rule receives the call, and the call returns or
  throws.\<close>

definition configure :: "host \<Rightarrow> rule \<Rightarrow> jsval \<Rightarrow> engine \<Rightarrow> unit result" where
  "configure h r settings s =
     (case configureThrows h r settings of
        Some e \<Rightarrow> (Inl e, s\<lparr>configureCalls := configureCalls s @ [(r, settings)]\<rparr>)
      | None \<Rightarrow> (Inr (), s\<lparr>configureCalls := configureCalls s @ [(r, settings)]\<rparr>))"

text \<open>\<^verbatim>\<open>xs.forEach(f, this)\<close> for a callback that may throw: the first exception ends
  the iteration and leaves the engine as it is at that moment.\<close>

fun forEach :: "('a \<Rightarrow> engine \<Rightarrow> unit result) \<Rightarrow> 'a list \<Rightarrow> engine \<Rightarrow> unit result" where
  "forEach f [] s = (Inr (), s)"
| "forEach f (x # xs) s =
     (case f x s of
        (Inl e, s') \<Rightarrow> (Inl e, s')
      | (Inr u, s') \<Rightarrow> forEach f xs s')"

text \<open>\<^verbatim>\<open>plugin(this)\<close>: the initialiser performs its registrations in order.\<close>

fun runAction :: "action \<Rightarrow> engine \<Rightarrow> engine" where
  "runAction (RegisterRule r) s = registerRule r s"
| "runAction (RegisterPreset presetName presetConfig) s =
     registerPreset presetName presetConfig s"

definition loadPlugin :: "jsval \<Rightarrow> engine \<Rightarrow> unit result" where
  "loadPlugin plugin s =
     (case plugin of
        JFun acts \<Rightarrow> (Inr (), fold runAction acts s)
      | _ \<Rightarrow> (Inl (AssertionError ''plugin should be a function''), s))"

text \<open>
  \<^verbatim>\<open>_loadAdditionalRule\<close>: the assertion admits every value whose \<^verbatim>\<open>typeof\<close> is
  \<^verbatim>\<open>'object'\<close>; \<^verbatim>\<open>registerRule\<close> then calls \<^verbatim>\<open>rule.getOptionName()\<close>. The call succeeds
  on every object whose \<^verbatim>\<open>getOptionName\<close> is callable, whatever else the object has or
  lacks, and throws a \<^verbatim>\<open>TypeError\<close> on \<^verbatim>\<open>null\<close>, on an array and on any other object.
\<close>

definition loadAdditionalRule :: "jsval \<Rightarrow> engine \<Rightarrow> unit result" where
  "loadAdditionalRule additionalRule s =
     (if typeof additionalRule = ''object''
      then (case additionalRule of
              JRule r \<Rightarrow> (Inr (), registerRule r s)
            | _ \<Rightarrow> (Inl (TypeError ''rule.getOptionName()''), s))
      else (Inl (AssertionError ''additionalRule should be an object''), s))"

subsection \<open>The steps of \<^verbatim>\<open>_processConfig\<close>\<close>

text \<open>\<^verbatim>\<open>// Load plugins\<close>\<close>

definition loadPlugins :: "obj \<Rightarrow> engine \<Rightarrow> unit result" where
  "loadPlugins config s =
     (if truthy (get config ''plugins'')
      then (case get config ''plugins'' of
              JArr plugins \<Rightarrow> forEach loadPlugin plugins s
            | _ \<Rightarrow> (Inl (AssertionError ''plugins option requires array value''), s))
      else (Inr (), s))"

text \<open>
  \<^verbatim>\<open>// Apply presets\<close>. \<open>presetFound\<close> is \<^verbatim>\<open>Boolean(this._presets[presetName])\<close>: the
  truth value of the own property of that name, else of what the prototype of \<^verbatim>\<open>_presets\<close>
  answers: \<^verbatim>\<open>Object.prototype\<close>, or the object that replaced it (a data object answers
  with its own members, then with \<^verbatim>\<open>Object.prototype\<close>), or nothing when \<^verbatim>\<open>null\<close>
  replaced it.
  The call \<^verbatim>\<open>this.process(presetData)\<close> that follows the two assertions names a method
  that neither \<^verbatim>\<open>Configuration.prototype\<close>, \<^verbatim>\<open>NodeConfiguration.prototype\<close> nor
  \<^verbatim>\<open>Object.prototype\<close> defines, so it throws a \<^verbatim>\<open>TypeError\<close>, and the loop that would
  copy the preset's options (lines 95 to 99) is never entered. The step returns the rule
  settings collected so far.
\<close>

definition presetFound :: "host \<Rightarrow> engine \<Rightarrow> string \<Rightarrow> bool" where
  "presetFound h s presetName =
     (case presets s presetName of
        Some presetData \<Rightarrow> truthy presetData
      | None \<Rightarrow>
          (case presets s ''__proto__'' of
             None \<Rightarrow> presetName \<in> set Object_prototype
           | Some JNull \<Rightarrow> False
           | Some (JObj members) \<Rightarrow>
               (case map_of members presetName of
                  Some d \<Rightarrow> truthyData d
                | None \<Rightarrow> presetName \<in> set Object_prototype)
           | Some prototype \<Rightarrow> member h prototype presetName \<noteq> Nothing))"

definition notFound :: "string \<Rightarrow> string" where
  "notFound presetName = ''preset '' @ [CHR 0x22] @ presetName @ [CHR 0x22] @ '' was not found''"

definition applyPreset :: "host \<Rightarrow> obj \<Rightarrow> engine \<Rightarrow> obj result" where
  "applyPreset h config s =
     (if truthy (get config ''preset'')
      then (case get config ''preset'' of
              JStr presetName \<Rightarrow>
                (if presetFound h s presetName
                 then (Inl (TypeError ''this.process(presetData)''), s)
                 else (Inl (AssertionError (notFound presetName)), s))
            | _ \<Rightarrow> (Inl (AssertionError ''preset option requires string value''), s))
      else (Inr [], s))"

text \<open>\<^verbatim>\<open>// File extensions\<close>; \<^verbatim>\<open>[].concat(v)\<close> wraps a string and copies an array.\<close>

definition setFileExtensions :: "obj \<Rightarrow> engine \<Rightarrow> unit result" where
  "setFileExtensions config s =
     (if truthy (get config ''fileExtensions'')
      then (case get config ''fileExtensions'' of
              JStr ext \<Rightarrow> (Inr (), s\<lparr>fileExtensions := [JStr ext]\<rparr>)
            | JArr exts \<Rightarrow> (Inr (), s\<lparr>fileExtensions := exts\<rparr>)
            | _ \<Rightarrow> (Inl (AssertionError
                       ''fileExtensions option requires string or array value''), s))
      else (Inr (), s))"

text \<open>\<^verbatim>\<open>// File excludes\<close>\<close>

definition setExcludedFiles :: "obj \<Rightarrow> engine \<Rightarrow> unit result" where
  "setExcludedFiles config s =
     (if truthy (get config ''excludeFiles'')
      then (case get config ''excludeFiles'' of
              JArr masks \<Rightarrow> (Inr (), s\<lparr>excludedFiles := masks\<rparr>)
            | _ \<Rightarrow> (Inl (AssertionError ''excludeFiles option requires array value''), s))
      else (Inr (), s))"

text \<open>
  \<^verbatim>\<open>// Additional rules\<close>. After the assertion the code reads
  \<^verbatim>\<open>config.additionalRules.plugins\<close>; an array has no such member, so \<^verbatim>\<open>.forEach\<close> is
  read from \<^verbatim>\<open>undefined\<close> and throws before \<^verbatim>\<open>_loadAdditionalRule\<close> sees an element.
\<close>

definition loadAdditionalRules :: "obj \<Rightarrow> engine \<Rightarrow> unit result" where
  "loadAdditionalRules config s =
     (if truthy (get config ''additionalRules'')
      then (case get config ''additionalRules'' of
              JArr additionalRules \<Rightarrow>
                (Inl (TypeError ''config.additionalRules.plugins.forEach''), s)
            | _ \<Rightarrow> (Inl (AssertionError ''additionalRules option requires array value''), s))
      else (Inr (), s))"

text \<open>\<^verbatim>\<open>// Apply config options\<close>: the loop of lines 125 to 129 (and of 95 to 99) that
  copies the options of \<open>source\<close> which \<^verbatim>\<open>BUILTIN_OPTIONS\<close> does not answer for.\<close>

definition copyOptions :: "obj \<Rightarrow> obj \<Rightarrow> obj" where
  "copyOptions source ruleSettings =
     fold (\<lambda>key rs. if \<not> builtinOption key then put key (get source key) rs else rs)
       (keys source) ruleSettings"

definition processConfig :: "host \<Rightarrow> obj \<Rightarrow> engine \<Rightarrow> obj result" where
  "processConfig h config s =
     (case loadPlugins config s of
        (Inl e, s1) \<Rightarrow> (Inl e, s1)
      | (Inr u, s1) \<Rightarrow>
     (case applyPreset h config s1 of
        (Inl e, s2) \<Rightarrow> (Inl e, s2)
      | (Inr ruleSettings, s2) \<Rightarrow>
     (case setFileExtensions config s2 of
        (Inl e, s3) \<Rightarrow> (Inl e, s3)
      | (Inr u, s3) \<Rightarrow>
     (case setExcludedFiles config s3 of
        (Inl e, s4) \<Rightarrow> (Inl e, s4)
      | (Inr u, s4) \<Rightarrow>
     (case loadAdditionalRules config s4 of
        (Inl e, s5) \<Rightarrow> (Inl e, s5)
      | (Inr u, s5) \<Rightarrow> (Inr (copyOptions config ruleSettings), s5))))))"

subsection \<open>\<^verbatim>\<open>load\<close>\<close>

text \<open>
  \<^verbatim>\<open>this._rules[optionName]\<close>: the rule registered under that name; else what the
  prototype of \<^verbatim>\<open>_rules\<close> answers. When a rule named \<^verbatim>\<open>__proto__\<close> has become the prototype,
  that is the member of this rule under that name. Otherwise it is a member of
  \<^verbatim>\<open>Object.prototype\<close>, which is truthy and has no \<^verbatim>\<open>configure\<close> method, or \<^verbatim>\<open>undefined\<close>.
\<close>

definition lookupRule :: "host \<Rightarrow> engine \<Rightarrow> string \<Rightarrow> lookup" where
  "lookupRule h s optionName =
     (case rules s optionName of
        Some r \<Rightarrow> Value r
      | None \<Rightarrow>
          (case rules s ''__proto__'' of
             None \<Rightarrow> (if optionName \<in> set Object_prototype then Truthy else Nothing)
           | Some prototype \<Rightarrow> member h (JRule prototype) optionName))"

text \<open>
  The callback of the \<^verbatim>\<open>forEach\<close> in \<^verbatim>\<open>load\<close>, with the local \<^verbatim>\<open>unsupportedRules\<close> passed
  along. An exception of \<^verbatim>\<open>rule.configure\<close> is not caught: it ends the iteration, and
  \<^verbatim>\<open>load\<close> with it, before the keys that follow are looked at.
\<close>

fun configureRules ::
  "host \<Rightarrow> obj \<Rightarrow> string list \<Rightarrow> string list \<Rightarrow> engine \<Rightarrow> (string list) result" where
  "configureRules h ruleSettings [] unsupportedRules s = (Inr unsupportedRules, s)"
| "configureRules h ruleSettings (optionName # rest) unsupportedRules s =
     (case lookupRule h s optionName of
        Value r \<Rightarrow>
          (case configure h r (get ruleSettings optionName) s of
             (Inl e, s') \<Rightarrow> (Inl e, s')
           | (Inr u, s') \<Rightarrow> configureRules h ruleSettings rest unsupportedRules s')
      | Truthy \<Rightarrow> (Inl (TypeError ''rule.configure(ruleSettings[optionName])''), s)
      | Nothing \<Rightarrow> configureRules h ruleSettings rest (unsupportedRules @ [optionName]) s)"

text \<open>\<^verbatim>\<open>forEach\<close> returns \<^verbatim>\<open>undefined\<close>, and that is what line 33 assigns to
  \<^verbatim>\<open>this._configuredRules\<close>.\<close>

definition load :: "host \<Rightarrow> obj \<Rightarrow> engine \<Rightarrow> unit result" where
  "load h config s =
     (case processConfig h config s of
        (Inl e, s1) \<Rightarrow> (Inl e, s1)
      | (Inr ruleSettings, s1) \<Rightarrow>
     (case configureRules h ruleSettings (keys ruleSettings) [] s1 of
        (Inl e, s2) \<Rightarrow> (Inl e, s2)
      | (Inr unsupportedRules, s2) \<Rightarrow>
          (if length unsupportedRules > 0
           then (Inl (Error (''Unsupported rules: '' @ join '', '' unsupportedRules)),
                 s2\<lparr>configuredRules := None\<rparr>)
           else (Inr (), s2\<lparr>configuredRules := None\<rparr>))))"

section \<open>Objects as ordered property lists\<close>

lemma keys_Nil: "keys [] = []"
  by (simp add: keys_def)

lemma keys_put_list:
  "keys (put k v ob) = (if k \<in> set (keys ob) then keys ob else keys ob @ [k])"
  by (induction ob) (force simp: keys_def)+

lemma put_fresh: "k \<notin> set (keys ob) \<Longrightarrow> put k v ob = ob @ [(k, v)]"
  by (induction ob) (auto simp: keys_def)

lemma get_put: "get (put k v ob) k' = (if k' = k then v else get ob k')"
  by (induction ob) (auto simp: get_def)

section \<open>The copy loop\<close>

lemma copyOptions_keys:
  "set (keys (copyOptions source rs0)) =
     set (keys rs0) \<union> {k \<in> set (keys source). \<not> builtinOption k}"
proof -
  have "set (keys (fold (\<lambda>key rs. if \<not> builtinOption key then put key (get source key) rs
                                  else rs) ks rs0))
          = set (keys rs0) \<union> {k \<in> set ks. \<not> builtinOption k}" for ks
    by (induction ks arbitrary: rs0) (auto simp: keys_put_list)
  then show ?thesis by (simp add: copyOptions_def)
qed

lemma copyOptions_get:
  "get (copyOptions source rs0) k =
     (if k \<in> set (keys source) \<and> \<not> builtinOption k then get source k else get rs0 k)"
proof -
  have "get (fold (\<lambda>key rs. if \<not> builtinOption key then put key (get source key) rs
                             else rs) ks rs0) k
          = (if k \<in> set ks \<and> \<not> builtinOption k then get source k else get rs0 k)" for ks
    by (induction ks arbitrary: rs0) (auto simp: get_put)
  then show ?thesis by (simp add: copyOptions_def)
qed

lemma copyOptions_distinct:
  assumes "distinct (keys source)"
  shows "copyOptions source [] =
           map (\<lambda>k. (k, get source k)) (filter (\<lambda>k. \<not> builtinOption k) (keys source))"
proof -
  have "distinct ks \<Longrightarrow> set ks \<inter> set (keys rs0) = {} \<Longrightarrow>
        fold (\<lambda>key rs. if \<not> builtinOption key then put key (get source key) rs else rs) ks rs0
          = rs0 @ map (\<lambda>k. (k, get source k)) (filter (\<lambda>k. \<not> builtinOption k) ks)"
    for ks rs0
  proof (induction ks arbitrary: rs0)
    case Nil
    then show ?case by simp
  next
    case (Cons k ks)
    then show ?case by (auto simp: put_fresh keys_def)
  qed
  from this [of "keys source" "[]"] assms show ?thesis
    by (simp add: copyOptions_def keys_def)
qed

section \<open>What \<^verbatim>\<open>_processConfig\<close> returns\<close>

lemma applyPreset_Inr:
  "applyPreset h config s = (Inr rs, s') \<Longrightarrow>
     rs = [] \<and> s' = s \<and> \<not> truthy (get config ''preset'')"
  by (auto simp: applyPreset_def split: if_splits jsval.splits)

lemma processConfig_Inr:
  assumes "processConfig h config s = (Inr rs, s')"
  shows "rs = copyOptions config []"
  using assms
  by (auto simp: processConfig_def split: prod.splits sum.splits dest: applyPreset_Inr)

lemma processConfig_keys:
  assumes "processConfig h config s = (Inr rs, s')"
  shows "set (keys rs) \<inter> set Object_prototype = {}"
  using processConfig_Inr [OF assms]
  by (auto simp: copyOptions_keys builtinOption_def keys_Nil)

section \<open>The loop of \<^verbatim>\<open>load\<close>\<close>

lemma lookupRule_rules: "rules t = rules s \<Longrightarrow> lookupRule h t k = lookupRule h s k"
  by (simp add: lookupRule_def cong: option.case_cong)

lemma lookupRule_configureCalls:
  "lookupRule h (s\<lparr>configureCalls := c\<rparr>) k = lookupRule h s k"
  by (rule lookupRule_rules) simp

lemma lookupRule_Truthy:
  "rules s ''__proto__'' = None \<Longrightarrow> lookupRule h s k = Truthy \<Longrightarrow> k \<in> set Object_prototype"
  by (auto simp: lookupRule_def split: option.splits if_splits)

text \<open>When no \<^verbatim>\<open>configure\<close> call throws, the loop configures in order what it finds and
  collects the other names.\<close>

lemma configureRules_eq:
  assumes "\<forall>k \<in> set ks. lookupRule h s k \<noteq> Truthy \<and>
             (\<forall>r. lookupRule h s k = Value r \<longrightarrow> configureThrows h r (get rs k) = None)"
  shows "configureRules h rs ks un s =
     (Inr (un @ filter (\<lambda>k. lookupRule h s k = Nothing) ks),
      s\<lparr>configureCalls := configureCalls s @
           List.map_filter
             (\<lambda>k. case lookupRule h s k of Value r \<Rightarrow> Some (r, get rs k) | _ \<Rightarrow> None) ks\<rparr>)"
  using assms
proof (induction ks arbitrary: un s)
  case Nil
  then show ?case by simp
next
  case (Cons k ks)
  show ?case
  proof (cases "lookupRule h s k")
    case (Value r)
    let ?s' = "s\<lparr>configureCalls := configureCalls s @ [(r, get rs k)]\<rparr>"
    have ok: "configureThrows h r (get rs k) = None"
      using Cons.prems Value by simp
    have "configureRules h rs ks un ?s' =
       (Inr (un @ filter (\<lambda>k. lookupRule h ?s' k = Nothing) ks),
        ?s'\<lparr>configureCalls := configureCalls ?s' @
           List.map_filter
             (\<lambda>k. case lookupRule h ?s' k of Value r \<Rightarrow> Some (r, get rs k) | _ \<Rightarrow> None)
             ks\<rparr>)"
      using Cons.prems by (intro Cons.IH) (auto simp: lookupRule_configureCalls)
    then show ?thesis
      by (simp add: Value ok configure_def lookupRule_configureCalls)
  next
    case Truthy
    with Cons.prems show ?thesis by auto
  next
    case Nothing
    with Cons.prems Cons.IH [of s "un @ [k]"] show ?thesis by simp
  qed
qed

lemma load_eq:
  assumes "processConfig h config s = (Inr ruleSettings, s1)"
    and "\<forall>k \<in> set (keys ruleSettings). lookupRule h s1 k \<noteq> Truthy \<and>
           (\<forall>r. lookupRule h s1 k = Value r \<longrightarrow>
              configureThrows h r (get ruleSettings k) = None)"
  shows "load h config s =
    (if filter (\<lambda>k. lookupRule h s1 k = Nothing) (keys ruleSettings) \<noteq> []
     then Inl (Error (''Unsupported rules: '' @
            join '', '' (filter (\<lambda>k. lookupRule h s1 k = Nothing) (keys ruleSettings))))
     else Inr (),
     s1\<lparr>configuredRules := None,
        configureCalls := configureCalls s1 @
          List.map_filter
            (\<lambda>k. case lookupRule h s1 k of Value r \<Rightarrow> Some (r, get ruleSettings k)
                  | _ \<Rightarrow> None)
            (keys ruleSettings)\<rparr>)"
  using assms(1) configureRules_eq [OF assms(2)]
  by (simp add: load_def)

text \<open>On an engine whose rule registry has its own prototype, the keys of the rule
  settings never find a member of \<^verbatim>\<open>Object.prototype\<close>.\<close>

lemma processConfig_not_Truthy:
  assumes "processConfig h config s = (Inr rs, s1)" and "rules s1 ''__proto__'' = None"
    and "k \<in> set (keys rs)"
  shows "lookupRule h s1 k \<noteq> Truthy"
  using processConfig_keys [OF assms(1)] assms(3) lookupRule_Truthy [OF assms(2), of h k]
  by auto

lemma load_success_configuredRules:
  "fst (load h config s) = Inr () \<Longrightarrow> getConfiguredRules (snd (load h config s)) = None"
  by (auto simp: load_def getConfiguredRules_def split: prod.splits sum.splits if_splits)

lemma load_found_preset:
  assumes "loadPlugins config s = (Inr (), s1)" and "get config ''preset'' = JStr presetName"
    and "presetName \<noteq> []" and "presetFound h s1 presetName"
  shows "load h config s = (Inl (TypeError ''this.process(presetData)''), s1)"
  using assms by (simp add: load_def processConfig_def applyPreset_def)

lemma load_additionalRules_array:
  assumes "processConfig h config s = (r, s1)" and "get config ''additionalRules'' = JArr xs"
  shows "\<exists>e. r = Inl e"
  using assms
  by (auto simp: processConfig_def loadAdditionalRules_def split: prod.splits sum.splits)

text \<open>An exception of \<^verbatim>\<open>configure\<close> ends the loop at once.\<close>

lemma configureRules_throws:
  assumes "lookupRule h s k = Value r" and "configureThrows h r (get rs k) = Some e"
  shows "configureRules h rs (k # ks) un s =
           (Inl e, s\<lparr>configureCalls := configureCalls s @ [(r, get rs k)]\<rparr>)"
  using assms by (simp add: configure_def)

text \<open>A rule named \<^verbatim>\<open>__proto__\<close> becomes the prototype of the registry: the key
  \<^verbatim>\<open>configure\<close> then finds the rule's method of that name, a function, and the call of line
  36 on it throws; a key the rule has no member for is still unsupported.\<close>

lemma prototype_rule_example:
  "fst (load requireTrue [(''configure'', JBool True)]
          (registerRule (Rule 0 ''__proto__'') Configuration))
     = Inl (TypeError ''rule.configure(ruleSettings[optionName])'')
   \<and> fst (load requireTrue [(''unknown-rule'', JBool True)]
          (registerRule (Rule 0 ''__proto__'') Configuration))
     = Inl (Error ''Unsupported rules: unknown-rule'')"
  by (simp add: load_def processConfig_def loadPlugins_def applyPreset_def setFileExtensions_def
      setExcludedFiles_def loadAdditionalRules_def copyOptions_def get_def keys_def
      builtinOption_def BUILTIN_OPTIONS_def Object_prototype_def registerRule_def
      Configuration_def lookupRule_def requireTrue_def)

section \<open>The configured rules after \<^verbatim>\<open>load\<close>\<close>

text \<open>
  Claim C1: after a successful \<^verbatim>\<open>load\<close>, \<^verbatim>\<open>getConfiguredRules()\<close> is to return the rules
  whose option names are keys of the resolved rule settings, in key order.

  The code does not do that. On an engine with the rule \<^verbatim>\<open>disallow-empty-blocks\<close>
  registered, \<^verbatim>\<open>load({"disallow-empty-blocks": true})\<close> succeeds and calls the rule's
  \<^verbatim>\<open>configure(true)\<close>, but \<^verbatim>\<open>getConfiguredRules()\<close> then returns \<^verbatim>\<open>undefined\<close>, not the
  list holding that rule: line 33 assigns the result of \<^verbatim>\<open>forEach\<close> to the field, and the
  callback never collects the rule. (\<open>load_success_configuredRules\<close> shows the same after
  every successful load.)
\<close>

theorem configured_rules_lost:
  "fst (load requireTrue [(''disallow-empty-blocks'', JBool True)]
          (registerRule (Rule 0 ''disallow-empty-blocks'') Configuration)) = Inr ()
   \<and> configureCalls (snd (load requireTrue [(''disallow-empty-blocks'', JBool True)]
          (registerRule (Rule 0 ''disallow-empty-blocks'') Configuration)))
       = [(Rule 0 ''disallow-empty-blocks'', JBool True)]
   \<and> getConfiguredRules (snd (load requireTrue [(''disallow-empty-blocks'', JBool True)]
          (registerRule (Rule 0 ''disallow-empty-blocks'') Configuration))) = None
   \<and> getConfiguredRules (snd (load requireTrue [(''disallow-empty-blocks'', JBool True)]
          (registerRule (Rule 0 ''disallow-empty-blocks'') Configuration)))
       \<noteq> Some [Rule 0 ''disallow-empty-blocks'']"
  by (simp add: load_def processConfig_def loadPlugins_def applyPreset_def setFileExtensions_def
      setExcludedFiles_def loadAdditionalRules_def copyOptions_def get_def keys_def
      builtinOption_def BUILTIN_OPTIONS_def Object_prototype_def registerRule_def
      Configuration_def configure_def getConfiguredRules_def lookupRule_def requireTrue_def)

section \<open>Presets\<close>

text \<open>
  Claim C2: when a registered preset defines \<open>r\<close> with \<open>v1\<close> and the configuration that
  names the preset defines \<open>r\<close> with \<open>v2\<close>, the rule registered at \<open>r\<close> is to be
  configured with \<open>v2\<close>.

  The code does not get that far. With the preset \<^verbatim>\<open>p = {"disallow-empty-blocks": true}\<close>
  and the rule registered, \<^verbatim>\<open>load({preset: "p", "disallow-empty-blocks": false})\<close> throws
  the \<^verbatim>\<open>TypeError\<close> of the call \<^verbatim>\<open>this.process(presetData)\<close>, and the rule receives no
  \<^verbatim>\<open>configure\<close> call at all. (\<open>load_found_preset\<close> shows the same for every preset that is
  found.)
\<close>

theorem preset_processing_throws:
  "fst (load requireTrue [(''preset'', JStr ''p''), (''disallow-empty-blocks'', JBool False)]
          (registerRule (Rule 0 ''disallow-empty-blocks'')
            (registerPreset ''p'' (JObj [(''disallow-empty-blocks'', DBool True)])
               Configuration)))
     = Inl (TypeError ''this.process(presetData)'')
   \<and> configureCalls
        (snd (load requireTrue
          [(''preset'', JStr ''p''), (''disallow-empty-blocks'', JBool False)]
          (registerRule (Rule 0 ''disallow-empty-blocks'')
            (registerPreset ''p'' (JObj [(''disallow-empty-blocks'', DBool True)])
               Configuration))))
     = []"
  by (simp add: load_def processConfig_def loadPlugins_def applyPreset_def get_def
      presetFound_def registerRule_def registerPreset_def Configuration_def)

section \<open>Additional rules\<close>

text \<open>
  Claim C3: the elements of an \<^verbatim>\<open>additionalRules\<close> array are to be passed, in order, to
  the additional-rule loader, and a valid array is not to abort the processing.

  In the code, \<^verbatim>\<open>load({additionalRules: [rule]})\<close> with a rule object named
  \<^verbatim>\<open>custom-rule\<close> throws a \<^verbatim>\<open>TypeError\<close> (line 120 iterates over
  \<^verbatim>\<open>config.additionalRules.plugins\<close>) and the rule is not registered, although
  \<^verbatim>\<open>_loadAdditionalRule\<close>, given that element, registers it. (\<open>load_additionalRules_array\<close>
  shows that no configuration with an \<^verbatim>\<open>additionalRules\<close> array is processed to the
  end.)
\<close>

theorem additional_rules_never_loaded:
  "fst (load requireTrue [(''additionalRules'', JArr [JRule (Rule 0 ''custom-rule'')])]
          Configuration)
     = Inl (TypeError ''config.additionalRules.plugins.forEach'')
   \<and> rules (snd (load requireTrue
          [(''additionalRules'', JArr [JRule (Rule 0 ''custom-rule'')])]
          Configuration)) ''custom-rule'' = None
   \<and> rules (snd (loadAdditionalRule (JRule (Rule 0 ''custom-rule'')) Configuration))
          ''custom-rule'' = Some (Rule 0 ''custom-rule'')"
  by (simp add: load_def processConfig_def loadPlugins_def applyPreset_def setFileExtensions_def
      setExcludedFiles_def loadAdditionalRules_def get_def Configuration_def
      loadAdditionalRule_def registerRule_def)

section \<open>Unsupported rules\<close>

text \<open>
  Claim C4 says that whenever the resolved rule settings hold keys that no registered rule
  answers to, \<^verbatim>\<open>load\<close> goes through every key and only then fails with the
  unsupported-rules error. The call \<^verbatim>\<open>rule.configure(...)\<close> of line 36 stands in no
  \<^verbatim>\<open>try\<close>: a rule that rejects its settings ends \<^verbatim>\<open>load\<close> with its own exception. With the
  rule \<^verbatim>\<open>disallow-empty-blocks\<close> registered, which asserts that its setting is \<^verbatim>\<open>true\<close>,
  \<^verbatim>\<open>load({"disallow-empty-blocks": false, "unknown-rule": true})\<close> fails with the rule's
  assertion error; the key \<^verbatim>\<open>unknown-rule\<close>, which no rule answers to, is never looked at,
  and no unsupported-rules error is raised.
\<close>

theorem configure_exception_counterexample:
  "lookupRule requireTrue (registerRule (Rule 0 ''disallow-empty-blocks'') Configuration)
       ''unknown-rule'' = Nothing
   \<and> fst (processConfig requireTrue
            [(''disallow-empty-blocks'', JBool False), (''unknown-rule'', JBool True)]
            (registerRule (Rule 0 ''disallow-empty-blocks'') Configuration))
       = Inr [(''disallow-empty-blocks'', JBool False), (''unknown-rule'', JBool True)]
   \<and> fst (load requireTrue
            [(''disallow-empty-blocks'', JBool False), (''unknown-rule'', JBool True)]
            (registerRule (Rule 0 ''disallow-empty-blocks'') Configuration))
       = Inl (AssertionError ''disallow-empty-blocks option requires true value'')
   \<and> fst (load requireTrue
            [(''disallow-empty-blocks'', JBool False), (''unknown-rule'', JBool True)]
            (registerRule (Rule 0 ''disallow-empty-blocks'') Configuration))
       \<noteq> Inl (Error ''Unsupported rules: unknown-rule'')"
  by (simp add: load_def processConfig_def loadPlugins_def applyPreset_def setFileExtensions_def
      setExcludedFiles_def loadAdditionalRules_def copyOptions_def get_def keys_def
      builtinOption_def BUILTIN_OPTIONS_def Object_prototype_def registerRule_def
      Configuration_def configure_def lookupRule_def requireTrue_def)

text \<open>
  Claim C4, amended: when the resolved rule settings hold keys for which the lookup
  \<^verbatim>\<open>this._rules[key]\<close> yields nothing, and no \<^verbatim>\<open>configure\<close> call that \<^verbatim>\<open>load\<close> makes
  throws (what a key finds has a \<^verbatim>\<open>configure\<close> method, and the method accepts the key's
  setting), \<^verbatim>\<open>load\<close> goes through every key: each key for which the lookup yields a value
  has that value's \<^verbatim>\<open>configure\<close> called with the key's setting, each other key is collected,
  and only then \<^verbatim>\<open>load\<close> fails with the error \<^verbatim>\<open>Unsupported rules: \<close> followed by the
  collected names in key order, joined by a comma and a space. With the two unknown keys
  \<open>k1\<close> and \<open>k2\<close>, in this order, the names are \<open>k1, k2\<close>. (An exception of
  \<^verbatim>\<open>configure\<close> ends \<^verbatim>\<open>load\<close> at that key: \<open>configureRules_throws\<close>.)
\<close>

theorem load_reports_every_unsupported_rule:
  assumes "processConfig h config s = (Inr ruleSettings, s1)"
    and "\<forall>k \<in> set (keys ruleSettings). lookupRule h s1 k \<noteq> Truthy \<and>
           (\<forall>r. lookupRule h s1 k = Value r \<longrightarrow>
              configureThrows h r (get ruleSettings k) = None)"
    and "filter (\<lambda>k. lookupRule h s1 k = Nothing) (keys ruleSettings) \<noteq> []"
  shows "load h config s =
    (Inl (Error (''Unsupported rules: '' @
            join '', '' (filter (\<lambda>k. lookupRule h s1 k = Nothing) (keys ruleSettings)))),
     s1\<lparr>configuredRules := None,
        configureCalls := configureCalls s1 @
          List.map_filter
            (\<lambda>k. case lookupRule h s1 k of Value r \<Rightarrow> Some (r, get ruleSettings k)
                  | _ \<Rightarrow> None)
            (keys ruleSettings)\<rparr>)
    \<and> (filter (\<lambda>k. lookupRule h s1 k = Nothing) (keys ruleSettings) = [k1, k2] \<longrightarrow>
         fst (load h config s) = Inl (Error (''Unsupported rules: '' @ k1 @ '', '' @ k2)))"
  using assms(3) by (simp add: load_eq [OF assms(1,2)])

theorem load_reports_every_unsupported_rule_witness:
  "fst (load requireTrue [(''known'', JBool True), (''k1'', JBool True), (''k2'', JBool False)]
          (registerRule (Rule 0 ''known'') Configuration))
     = Inl (Error ''Unsupported rules: k1, k2'')
   \<and> configureCalls
        (snd (load requireTrue
          [(''known'', JBool True), (''k1'', JBool True), (''k2'', JBool False)]
          (registerRule (Rule 0 ''known'') Configuration)))
     = [(Rule 0 ''known'', JBool True)]"
proof -
  let ?cfg = "[(''known'', JBool True), (''k1'', JBool True), (''k2'', JBool False)]"
  let ?s = "registerRule (Rule 0 ''known'') Configuration"
  have h1: "processConfig requireTrue ?cfg ?s = (Inr ?cfg, ?s)"
    by (simp add: processConfig_def loadPlugins_def applyPreset_def setFileExtensions_def
        setExcludedFiles_def loadAdditionalRules_def copyOptions_def get_def keys_def
        builtinOption_def BUILTIN_OPTIONS_def Object_prototype_def)
  have h2: "\<forall>k \<in> set (keys ?cfg). lookupRule requireTrue ?s k \<noteq> Truthy \<and>
              (\<forall>r. lookupRule requireTrue ?s k = Value r \<longrightarrow>
                 configureThrows requireTrue r (get ?cfg k) = None)"
    by (simp add: keys_def lookupRule_def registerRule_def Configuration_def get_def
        requireTrue_def Object_prototype_def)
  have h3: "filter (\<lambda>k. lookupRule requireTrue ?s k = Nothing) (keys ?cfg) \<noteq> []"
    by (simp add: keys_def lookupRule_def registerRule_def Configuration_def
        Object_prototype_def)
  from load_reports_every_unsupported_rule [OF h1 h2 h3, of "''k1''" "''k2''"]
  show ?thesis
    by (simp add: keys_def lookupRule_def registerRule_def Configuration_def get_def
        Object_prototype_def)
qed

section \<open>Validation failures\<close>


lemma loadPlugin_not_function:
  "typeof p \<noteq> ''function'' \<Longrightarrow>
     loadPlugin p s = (Inl (AssertionError ''plugin should be a function''), s)"
  by (cases p) (auto simp: loadPlugin_def)

lemma loadPlugin_JFun: "loadPlugin (JFun acts) s = (Inr (), fold runAction acts s)"
  by (simp add: loadPlugin_def)






section \<open>Reserved keys and rule options\<close>

text \<open>
  Claim C6 says that the rule settings never hold one of the five reserved keys, and that
  every key outside this set is taken for the option name of a rule. The second half fails
  on a key that \<^verbatim>\<open>Object.prototype\<close> answers for: \<^verbatim>\<open>BUILTIN_OPTIONS["constructor"]\<close> is the
  inherited constructor function, so the key \<^verbatim>\<open>constructor\<close> of \<^verbatim>\<open>{constructor: true}\<close>, which
  is not reserved, is dropped like a reserved one, and \<^verbatim>\<open>load\<close> succeeds without having
  looked for a rule of that name.
\<close>

theorem inherited_name_counterexample:
  "''constructor'' \<notin> set BUILTIN_OPTIONS
   \<and> fst (processConfig requireTrue [(''constructor'', JBool True)] Configuration) = Inr []
   \<and> fst (load requireTrue [(''constructor'', JBool True)] Configuration) = Inr ()"
  by (simp add: load_def processConfig_def loadPlugins_def applyPreset_def setFileExtensions_def
      setExcludedFiles_def loadAdditionalRules_def copyOptions_def get_def keys_def
      builtinOption_def BUILTIN_OPTIONS_def Object_prototype_def)

text \<open>
  Claim C6, amended: whenever the processor returns rule settings, none of the five
  reserved keys is among their keys; their keys are exactly the keys of the configuration
  that are neither reserved nor names of members of \<^verbatim>\<open>Object.prototype\<close> (in the
  configuration's order when its keys are distinct, as the keys of an object are), each
  with the value the configuration gives it. The copy loop itself, whatever object it reads
  from (the loop for a preset's result has the same body), adds no reserved key to settings
  that hold none.
\<close>

theorem rule_settings_exclude_builtin_options:
  assumes "processConfig h config s = (Inr ruleSettings, s')"
  shows "set (keys ruleSettings) \<inter> set BUILTIN_OPTIONS = {}
    \<and> set (keys ruleSettings) =
        {k \<in> set (keys config). k \<notin> set BUILTIN_OPTIONS \<and> k \<notin> set Object_prototype}
    \<and> (\<forall>k \<in> set (keys ruleSettings). get ruleSettings k = get config k)
    \<and> (distinct (keys config) \<longrightarrow>
         keys ruleSettings =
           filter (\<lambda>k. k \<notin> set BUILTIN_OPTIONS \<and> k \<notin> set Object_prototype) (keys config))
    \<and> (set (keys rs0) \<inter> set BUILTIN_OPTIONS = {} \<longrightarrow>
         set (keys (copyOptions source rs0)) \<inter> set BUILTIN_OPTIONS = {})"
proof -
  have rs: "ruleSettings = copyOptions config []"
    using assms by (rule processConfig_Inr)
  have k: "set (keys ruleSettings) =
        {k \<in> set (keys config). k \<notin> set BUILTIN_OPTIONS \<and> k \<notin> set Object_prototype}"
    by (auto simp: rs copyOptions_keys builtinOption_def keys_Nil)
  have g: "\<forall>k \<in> set (keys ruleSettings). get ruleSettings k = get config k"
    by (auto simp: rs copyOptions_keys copyOptions_get keys_Nil)
  have d: "keys ruleSettings =
           filter (\<lambda>k. k \<notin> set BUILTIN_OPTIONS \<and> k \<notin> set Object_prototype) (keys config)"
    if "distinct (keys config)"
    using that by (simp add: rs copyOptions_distinct keys_def comp_def builtinOption_def)
  have c: "set (keys (copyOptions source rs0)) \<inter> set BUILTIN_OPTIONS = {}"
    if "set (keys rs0) \<inter> set BUILTIN_OPTIONS = {}"
    using that by (auto simp: copyOptions_keys builtinOption_def)
  have e: "set (keys ruleSettings) \<inter> set BUILTIN_OPTIONS = {}"
    unfolding k by blast
  show ?thesis
    apply (intro conjI impI)
    apply (rule e)
    apply (rule k)
    apply (rule g)
    apply (erule d)
    apply (erule c)
    done
qed

theorem rule_settings_exclude_builtin_options_witness:
  "fst (processConfig requireTrue
          [(''fileExtensions'', JStr ''.jsx''), (''constructor'', JNum 1),
           (''maximumLineLength'', JNum 80), (''excludeFiles'', JArr [])] Configuration)
     = Inr [(''maximumLineLength'', JNum 80)]
   \<and> set (keys [(''maximumLineLength'', JNum 80)]) \<inter> set BUILTIN_OPTIONS = {}"
proof -
  let ?cfg = "[(''fileExtensions'', JStr ''.jsx''), (''constructor'', JNum 1),
          (''maximumLineLength'', JNum 80), (''excludeFiles'', JArr [])]"
  let ?s = "Configuration\<lparr>fileExtensions := [JStr ''.jsx''], excludedFiles := []\<rparr>"
  have h: "processConfig requireTrue ?cfg Configuration
             = (Inr [(''maximumLineLength'', JNum 80)], ?s)"
    by (simp add: processConfig_def loadPlugins_def applyPreset_def setFileExtensions_def
        setExcludedFiles_def loadAdditionalRules_def copyOptions_def get_def keys_def
        builtinOption_def BUILTIN_OPTIONS_def Object_prototype_def)
  have "set (keys [(''maximumLineLength'', JNum 80)]) \<inter> set BUILTIN_OPTIONS = {}"
    by (rule rule_settings_exclude_builtin_options [OF h, THEN conjunct1])
  with h show ?thesis by simp
qed

section \<open>File extensions\<close>

lemma configureRules_fields:
  "configureRules h rs ks un s = (r, s') \<Longrightarrow>
     fileExtensions s' = fileExtensions s \<and> excludedFiles s' = excludedFiles s
     \<and> rules s' = rules s \<and> presets s' = presets s \<and> configuredRules s' = configuredRules s"
proof (induction ks arbitrary: un s)
  case Nil
  then show ?case by auto
next
  case (Cons k ks)
  show ?case
  proof (cases "lookupRule h s k")
    case (Value m)
    let ?t = "s\<lparr>configureCalls := configureCalls s @ [(m, get rs k)]\<rparr>"
    show ?thesis
    proof (cases "configureThrows h m (get rs k)")
      case None
      with Cons.prems Value have "configureRules h rs ks un ?t = (r, s')"
        by (simp add: configure_def)
      from Cons.IH [OF this] show ?thesis by simp
    next
      case (Some e)
      with Cons.prems Value show ?thesis by (auto simp: configure_def)
    qed
  next
    case Truthy
    with Cons.prems show ?thesis by auto
  next
    case Nothing
    with Cons.prems have "configureRules h rs ks (un @ [k]) s = (r, s')"
      by simp
    from Cons.IH [OF this] show ?thesis .
  qed
qed

lemma fold_runAction_fields:
  "fileExtensions (fold runAction acts s) = fileExtensions s
   \<and> excludedFiles (fold runAction acts s) = excludedFiles s
   \<and> configuredRules (fold runAction acts s) = configuredRules s
   \<and> configureCalls (fold runAction acts s) = configureCalls s"
proof (induction acts arbitrary: s)
  case Nil
  then show ?case by simp
next
  case (Cons a acts)
  then show ?case by (cases a) (simp_all add: registerRule_def registerPreset_def)
qed

lemma forEach_loadPlugin_fields:
  "forEach loadPlugin ps s = (r, s') \<Longrightarrow>
     fileExtensions s' = fileExtensions s \<and> excludedFiles s' = excludedFiles s
     \<and> configuredRules s' = configuredRules s \<and> configureCalls s' = configureCalls s"
proof (induction ps arbitrary: s)
  case Nil
  then show ?case by auto
next
  case (Cons p ps)
  show ?case
  proof (cases p)
    case (JFun acts)
    with Cons.prems have "forEach loadPlugin ps (fold runAction acts s) = (r, s')"
      by (simp add: loadPlugin_JFun)
    from Cons.IH [OF this] show ?thesis by (simp add: fold_runAction_fields)
  qed (use Cons.prems in \<open>auto simp: loadPlugin_not_function\<close>)
qed

lemma loadPlugins_fields:
  "loadPlugins config s = (r, s') \<Longrightarrow>
     fileExtensions s' = fileExtensions s \<and> excludedFiles s' = excludedFiles s
     \<and> configuredRules s' = configuredRules s \<and> configureCalls s' = configureCalls s"
  by (auto simp: loadPlugins_def split: if_splits jsval.splits dest: forEach_loadPlugin_fields)

lemma load_fileExtensions:
  assumes "loadPlugins config s = (Inr (), s1)" and "\<not> truthy (get config ''preset'')"
    and "setFileExtensions config s1 = (Inr (), s3)"
  shows "fileExtensions (snd (load h config s)) = fileExtensions s3"
proof -
  have ap: "applyPreset h config s1 = (Inr [], s1)"
    using assms(2) by (simp add: applyPreset_def)
  have ex: "fileExtensions (snd (setExcludedFiles config s3)) = fileExtensions s3"
    by (auto simp: setExcludedFiles_def split: jsval.splits)
  have ar: "snd (loadAdditionalRules config t) = t" for t
    by (auto simp: loadAdditionalRules_def split: jsval.splits)
  obtain r4 s4 where s4: "setExcludedFiles config s3 = (r4, s4)"
    by (cases "setExcludedFiles config s3")
  obtain r5 s5 where s5: "loadAdditionalRules config s4 = (r5, s5)"
    by (cases "loadAdditionalRules config s4")
  have f4: "fileExtensions s4 = fileExtensions s3" using ex s4 by simp
  have f5: "s5 = s4" using ar [of s4] s5 by simp
  show ?thesis
    using assms(1,3) ap s4 s5 f4 f5
    by (auto simp: load_def processConfig_def split: prod.splits sum.splits
          dest: configureRules_fields)
qed

text \<open>
  Claim C7 says that whenever a configuration has a \<^verbatim>\<open>fileExtensions\<close> key, a string value
  becomes a one-element list that replaces the default \<^verbatim>\<open>['.js']\<close>. The step is guarded by
  the truth value of the option, not by its presence: for \<^verbatim>\<open>load({fileExtensions: ""})\<close> the
  key is present and its value is a string, yet \<^verbatim>\<open>getFileExtensions()\<close> still returns
  \<^verbatim>\<open>['.js']\<close>, not \<^verbatim>\<open>['']\<close>.
\<close>

theorem fileExtensions_empty_counterexample:
  "fst (load requireTrue [(''fileExtensions'', JStr [])] Configuration) = Inr ()
   \<and> getFileExtensions (snd (load requireTrue [(''fileExtensions'', JStr [])] Configuration))
       = [JStr ''.js'']
   \<and> getFileExtensions (snd (load requireTrue [(''fileExtensions'', JStr [])] Configuration))
       \<noteq> [JStr []]"
  by (simp add: load_def processConfig_def loadPlugins_def applyPreset_def setFileExtensions_def
      setExcludedFiles_def loadAdditionalRules_def copyOptions_def get_def keys_def
      builtinOption_def BUILTIN_OPTIONS_def Object_prototype_def
      Configuration_def getFileExtensions_def)

text \<open>
  Claim C7, amended: when the processor reaches the step (the plugins have been loaded and
  \<^verbatim>\<open>preset\<close> is falsy), a non-empty string value of \<^verbatim>\<open>fileExtensions\<close> makes
  \<^verbatim>\<open>getFileExtensions()\<close> return the list of that one string after \<^verbatim>\<open>load\<close>, and an array
  value makes it return the elements of the array, whether or not a later step fails; a truthy
  value of any other type fails the assertion; a falsy value leaves the list as it was. So
  after \<^verbatim>\<open>load({fileExtensions: ".jsx"})\<close> on a new engine, whose list is \<^verbatim>\<open>['.js']\<close>,
  \<^verbatim>\<open>getFileExtensions()\<close> returns \<^verbatim>\<open>['.jsx']\<close>.
\<close>

theorem fileExtensions_replaced:
  assumes "loadPlugins config s = (Inr (), s1)" and "\<not> truthy (get config ''preset'')"
  shows "(get config ''fileExtensions'' = JStr ext \<and> ext \<noteq> [] \<longrightarrow>
            getFileExtensions (snd (load h config s)) = [JStr ext])
    \<and> (get config ''fileExtensions'' = JArr exts \<longrightarrow>
            getFileExtensions (snd (load h config s)) = exts)
    \<and> (truthy (get config ''fileExtensions'')
         \<and> typeof (get config ''fileExtensions'') \<noteq> ''string''
         \<and> \<not> isArray (get config ''fileExtensions'') \<longrightarrow>
            load h config s =
              (Inl (AssertionError ''fileExtensions option requires string or array value''),
               s1))
    \<and> (\<not> truthy (get config ''fileExtensions'') \<longrightarrow>
            getFileExtensions (snd (load h config s)) = getFileExtensions s)"
proof -
  have ap: "applyPreset h config s1 = (Inr [], s1)"
    using assms(2) by (simp add: applyPreset_def)
  have a: "getFileExtensions (snd (load h config s)) = [JStr ext]"
    if "get config ''fileExtensions'' = JStr ext" "ext \<noteq> []"
    using load_fileExtensions
            [OF assms, where ?s3.0 = "s1\<lparr>fileExtensions := [JStr ext]\<rparr>" and h = h] that
    by (simp add: setFileExtensions_def getFileExtensions_def)
  have b: "getFileExtensions (snd (load h config s)) = exts"
    if "get config ''fileExtensions'' = JArr exts"
    using load_fileExtensions
            [OF assms, where ?s3.0 = "s1\<lparr>fileExtensions := exts\<rparr>" and h = h] that
    by (simp add: setFileExtensions_def getFileExtensions_def)
  have c: "load h config s =
              (Inl (AssertionError ''fileExtensions option requires string or array value''),
               s1)"
    if "truthy (get config ''fileExtensions'')"
      "typeof (get config ''fileExtensions'') \<noteq> ''string''"
      "\<not> isArray (get config ''fileExtensions'')"
    using that assms(1)
    by (cases "get config ''fileExtensions''")
       (simp_all add: load_def processConfig_def ap setFileExtensions_def)
  have d: "getFileExtensions (snd (load h config s)) = getFileExtensions s"
    if "\<not> truthy (get config ''fileExtensions'')"
    using load_fileExtensions [OF assms, where ?s3.0 = s1 and h = h] that
      loadPlugins_fields [OF assms(1)]
    by (simp add: setFileExtensions_def getFileExtensions_def)
  show ?thesis
    using a b c d by blast
qed

theorem fileExtensions_replaced_witness:
  "getFileExtensions Configuration = [JStr ''.js'']
   \<and> getFileExtensions
        (snd (load requireTrue [(''fileExtensions'', JStr ''.jsx'')] Configuration))
       = [JStr ''.jsx'']"
proof -
  have h1: "loadPlugins [(''fileExtensions'', JStr ''.jsx'')] Configuration
              = (Inr (), Configuration)"
    by (simp add: loadPlugins_def get_def)
  have h2: "\<not> truthy (get [(''fileExtensions'', JStr ''.jsx'')] ''preset'')"
    by (simp add: get_def)
  have "getFileExtensions
          (snd (load requireTrue [(''fileExtensions'', JStr ''.jsx'')] Configuration))
       = [JStr ''.jsx'']"
    by (rule fileExtensions_replaced [OF h1 h2, THEN conjunct1, THEN mp])
       (simp add: get_def)
  then show ?thesis
    by (simp add: getFileExtensions_def Configuration_def)
qed

section \<open>The additional-rule loader\<close>

text \<open>
  Claim C8 says that \<^verbatim>\<open>_loadAdditionalRule\<close> fails with the invalid-additional-rule error
  on every value that is not a rule object. Its assertion tests \<^verbatim>\<open>typeof\<close> only, and
  \<^verbatim>\<open>typeof null\<close> is \<^verbatim>\<open>'object'\<close>: on \<^verbatim>\<open>null\<close> the assertion passes and the failure is the
  \<^verbatim>\<open>TypeError\<close> of \<^verbatim>\<open>rule.getOptionName()\<close> in \<^verbatim>\<open>registerRule\<close>.
\<close>

theorem loadAdditionalRule_null_counterexample:
  "typeof JNull = ''object''
   \<and> fst (loadAdditionalRule JNull Configuration) = Inl (TypeError ''rule.getOptionName()'')
   \<and> fst (loadAdditionalRule JNull Configuration)
        \<noteq> Inl (AssertionError ''additionalRule should be an object'')"
  by (simp add: loadAdditionalRule_def)

text \<open>
  Claim C8, amended: \<^verbatim>\<open>_loadAdditionalRule\<close> accepts every object whose \<^verbatim>\<open>getOptionName\<close>
  is callable, whether or not the object has a \<^verbatim>\<open>configure\<close> method, and registers it via
  \<^verbatim>\<open>registerRule\<close> under the name that call returns, so that \<^verbatim>\<open>this._rules[name]\<close> is that
  object afterwards. On a value whose \<^verbatim>\<open>typeof\<close> is not \<^verbatim>\<open>'object'\<close> (a string, a number,
  a function) it fails with the assertion error \<^verbatim>\<open>additionalRule should be an object\<close>; on
  \<^verbatim>\<open>null\<close>, on an array and on an object whose \<^verbatim>\<open>getOptionName\<close> is not callable it fails
  with the \<^verbatim>\<open>TypeError\<close> of \<^verbatim>\<open>rule.getOptionName()\<close>; and no failure changes the engine.
\<close>

theorem loadAdditionalRule_accepts_rules_only:
  "loadAdditionalRule (JRule r) s = (Inr (), registerRule r s)
   \<and> rules (registerRule r s) (getOptionName r) = Some r
   \<and> lookupRule h (registerRule r s) (getOptionName r) = Value r
   \<and> (typeof v \<noteq> ''object'' \<longrightarrow>
        loadAdditionalRule v s = (Inl (AssertionError ''additionalRule should be an object''), s))
   \<and> (typeof v = ''object'' \<and> (\<forall>r'. v \<noteq> JRule r') \<longrightarrow>
        loadAdditionalRule v s = (Inl (TypeError ''rule.getOptionName()''), s))"
  by (cases v) (auto simp: loadAdditionalRule_def registerRule_def lookupRule_def)

text \<open>The last line of the witness is an object without a \<^verbatim>\<open>configure\<close> method: the loader
  registers it, and the \<^verbatim>\<open>TypeError\<close> comes when \<^verbatim>\<open>load\<close> tries to configure it.\<close>

theorem loadAdditionalRule_accepts_rules_only_witness:
  "loadAdditionalRule (JStr ''rules/*.js'') Configuration
     = (Inl (AssertionError ''additionalRule should be an object''), Configuration)
   \<and> loadAdditionalRule (JNum 5) Configuration
     = (Inl (AssertionError ''additionalRule should be an object''), Configuration)
   \<and> loadAdditionalRule (JFun []) Configuration
     = (Inl (AssertionError ''additionalRule should be an object''), Configuration)
   \<and> loadAdditionalRule (JObj [(''name'', DStr ''custom-rule'')]) Configuration
     = (Inl (TypeError ''rule.getOptionName()''), Configuration)
   \<and> loadAdditionalRule (JArr []) Configuration
     = (Inl (TypeError ''rule.getOptionName()''), Configuration)
   \<and> rules (snd (loadAdditionalRule (JRule (Rule 0 ''custom-rule'')) Configuration))
        ''custom-rule'' = Some (Rule 0 ''custom-rule'')
   \<and> fst (load (requireTrue
                    \<lparr>configureThrows := (\<lambda>r settings. Some (TypeError ''rule.configure''))\<rparr>)
            [(''custom-rule'', JBool True)]
            (snd (loadAdditionalRule (JRule (Rule 0 ''custom-rule'')) Configuration)))
        = Inl (TypeError ''rule.configure'')"
proof -
  let ?r = "Rule 0 ''custom-rule''"
  let ?h = "requireTrue\<lparr>configureThrows := (\<lambda>r settings. Some (TypeError ''rule.configure''))\<rparr>"
  note t = loadAdditionalRule_accepts_rules_only [where r = ?r and s = Configuration and h = ?h]
  have reg: "loadAdditionalRule (JRule ?r) Configuration = (Inr (), registerRule ?r Configuration)"
    using t [of JNull] by simp
  have cfg: "fst (load ?h [(''custom-rule'', JBool True)] (registerRule ?r Configuration))
               = Inl (TypeError ''rule.configure'')"
    by (simp add: load_def processConfig_def loadPlugins_def applyPreset_def
        setFileExtensions_def setExcludedFiles_def loadAdditionalRules_def copyOptions_def
        get_def keys_def builtinOption_def BUILTIN_OPTIONS_def Object_prototype_def
        registerRule_def Configuration_def configure_def lookupRule_def)
  from t [of "JStr ''rules/*.js''"] t [of "JNum 5"] t [of "JFun []"]
    t [of "JObj [(''name'', DStr ''custom-rule'')]"] t [of "JArr []"] reg cfg
  show ?thesis by simp
qed

section \<open>Falsy values of the reserved options\<close>

lemma get_filter:
  "get (filter (\<lambda>p. fst p \<noteq> K) config) k = (if k = K then JUndefined else get config k)"
  by (induction config) (auto simp: get_def)

lemma copyOptions_filter:
  assumes "builtinOption K"
  shows "copyOptions (filter (\<lambda>p. fst p \<noteq> K) config) rs = copyOptions config rs"
proof -
  let ?c = "filter (\<lambda>p. fst p \<noteq> K) config"
  have "fold (\<lambda>key rs. if \<not> builtinOption key then put key (get ?c key) rs else rs)
          (filter (\<lambda>k. k \<noteq> K) ks) rs
        = fold (\<lambda>key rs. if \<not> builtinOption key then put key (get config key) rs else rs)
          ks rs" for ks
    using assms by (induction ks arbitrary: rs) (auto simp: get_filter)
  moreover have "keys ?c = filter (\<lambda>k. k \<noteq> K) (keys config)"
    by (induction config) (auto simp: keys_def)
  ultimately show ?thesis by (simp add: copyOptions_def)
qed

text \<open>
  Claim C10: a reserved option (\<^verbatim>\<open>plugins\<close>, \<^verbatim>\<open>preset\<close>, \<^verbatim>\<open>fileExtensions\<close>,
  \<^verbatim>\<open>excludeFiles\<close>, \<^verbatim>\<open>additionalRules\<close>) that is present with a falsy value is treated as
  absent. The processor and \<^verbatim>\<open>load\<close> do on such a configuration exactly what they do on
  the configuration without that key, and the step of that option validates nothing, raises
  nothing and returns the engine unchanged.
\<close>

theorem falsy_builtin_option_is_absent:
  assumes "K \<in> set BUILTIN_OPTIONS" and "\<not> truthy (get config K)"
  shows "processConfig h config s = processConfig h (filter (\<lambda>p. fst p \<noteq> K) config) s
    \<and> load h config s = load h (filter (\<lambda>p. fst p \<noteq> K) config) s
    \<and> (K = ''plugins'' \<longrightarrow> loadPlugins config s = (Inr (), s))
    \<and> (K = ''preset'' \<longrightarrow> applyPreset h config s = (Inr [], s))
    \<and> (K = ''fileExtensions'' \<longrightarrow> setFileExtensions config s = (Inr (), s))
    \<and> (K = ''excludeFiles'' \<longrightarrow> setExcludedFiles config s = (Inr (), s))
    \<and> (K = ''additionalRules'' \<longrightarrow> loadAdditionalRules config s = (Inr (), s))"
proof -
  let ?c = "filter (\<lambda>p. fst p \<noteq> K) config"
  have same: "truthy (get ?c k) = truthy (get config k)"
    "truthy (get config k) \<Longrightarrow> get ?c k = get config k" for k
    using assms(2) by (auto simp: get_filter)
  have p1: "loadPlugins ?c t = loadPlugins config t" for t
    using same [of "''plugins''"] by (auto simp: loadPlugins_def)
  have p2: "applyPreset h ?c t = applyPreset h config t" for t
    using same [of "''preset''"] by (auto simp: applyPreset_def)
  have p3: "setFileExtensions ?c t = setFileExtensions config t" for t
    using same [of "''fileExtensions''"] by (auto simp: setFileExtensions_def)
  have p4: "setExcludedFiles ?c t = setExcludedFiles config t" for t
    using same [of "''excludeFiles''"] by (auto simp: setExcludedFiles_def)
  have p5: "loadAdditionalRules ?c t = loadAdditionalRules config t" for t
    using same [of "''additionalRules''"] by (auto simp: loadAdditionalRules_def)
  have p6: "copyOptions ?c rs = copyOptions config rs" for rs
    using assms(1) by (intro copyOptions_filter) (simp add: builtinOption_def)
  have pc: "processConfig h config s = processConfig h ?c s"
    by (simp add: processConfig_def p1 p2 p3 p4 p5 p6 split: prod.splits sum.splits)
  have ld: "load h config s = load h ?c s"
    by (simp add: load_def pc)
  have q1: "loadPlugins config s = (Inr (), s)" if "K = ''plugins''"
    using that assms(2) by (simp add: loadPlugins_def)
  have q2: "applyPreset h config s = (Inr [], s)" if "K = ''preset''"
    using that assms(2) by (simp add: applyPreset_def)
  have q3: "setFileExtensions config s = (Inr (), s)" if "K = ''fileExtensions''"
    using that assms(2) by (simp add: setFileExtensions_def)
  have q4: "setExcludedFiles config s = (Inr (), s)" if "K = ''excludeFiles''"
    using that assms(2) by (simp add: setExcludedFiles_def)
  have q5: "loadAdditionalRules config s = (Inr (), s)" if "K = ''additionalRules''"
    using that assms(2) by (simp add: loadAdditionalRules_def)
  show ?thesis
    using pc ld q1 q2 q3 q4 q5 by blast
qed

theorem falsy_builtin_option_is_absent_witness:
  "load requireTrue [(''plugins'', JBool False), (''disallow-empty-blocks'', JBool True)]
        (registerRule (Rule 0 ''disallow-empty-blocks'') Configuration)
     = load requireTrue [(''disallow-empty-blocks'', JBool True)]
        (registerRule (Rule 0 ''disallow-empty-blocks'') Configuration)
   \<and> applyPreset requireTrue [(''preset'', JNull)] Configuration = (Inr [], Configuration)
   \<and> setFileExtensions [(''fileExtensions'', JStr [])] Configuration = (Inr (), Configuration)
   \<and> setExcludedFiles [(''excludeFiles'', JNum 0)] Configuration = (Inr (), Configuration)
   \<and> loadAdditionalRules [(''additionalRules'', JNum 0)] Configuration
       = (Inr (), Configuration)"
proof -
  have k: "''plugins'' \<in> set BUILTIN_OPTIONS" "''preset'' \<in> set BUILTIN_OPTIONS"
    "''fileExtensions'' \<in> set BUILTIN_OPTIONS" "''excludeFiles'' \<in> set BUILTIN_OPTIONS"
    "''additionalRules'' \<in> set BUILTIN_OPTIONS"
    by (simp_all add: BUILTIN_OPTIONS_def)
  have f1: "\<not> truthy (get [(''plugins'', JBool False), (''disallow-empty-blocks'', JBool True)]
              ''plugins'')"
    by (simp add: get_def)
  have f2: "\<not> truthy (get [(''preset'', JNull)] ''preset'')"
    by (simp add: get_def)
  have f3: "\<not> truthy (get [(''fileExtensions'', JStr [])] ''fileExtensions'')"
    by (simp add: get_def)
  have f4: "\<not> truthy (get [(''excludeFiles'', JNum 0)] ''excludeFiles'')"
    by (simp add: get_def)
  have f5: "\<not> truthy (get [(''additionalRules'', JNum 0)] ''additionalRules'')"
    by (simp add: get_def)
  from falsy_builtin_option_is_absent [OF k(1) f1, where h = requireTrue]
    falsy_builtin_option_is_absent [OF k(2) f2, where h = requireTrue and s = Configuration]
    falsy_builtin_option_is_absent [OF k(3) f3, where h = requireTrue and s = Configuration]
    falsy_builtin_option_is_absent [OF k(4) f4, where h = requireTrue and s = Configuration]
    falsy_builtin_option_is_absent [OF k(5) f5, where h = requireTrue and s = Configuration]
  show ?thesis by simp
qed

section \<open>Loading the same configuration twice\<close>

text \<open>What a list of plugins does to an engine is to add a fixed set of entries to its two
  registries; the result of the step does not depend on the engine.\<close>

lemma map_add_twice: "(m ++ M) ++ M = m ++ M"
  by (rule ext) (simp add: map_add_def split: option.splits)

lemma map_upd_add: "m(k \<mapsto> v) ++ M = m ++ ([k \<mapsto> v] ++ M)"
  by (rule ext) (simp add: map_add_def split: option.splits)

lemma fold_runAction_shape:
  "\<exists>M N. \<forall>t. fold runAction acts t = t\<lparr>rules := rules t ++ M, presets := presets t ++ N\<rparr>"
proof (induction acts)
  case Nil
  have "\<forall>t. fold runAction [] t =
          t\<lparr>rules := rules t ++ Map.empty, presets := presets t ++ Map.empty\<rparr>"
    by simp
  then show ?case by blast
next
  case (Cons a acts)
  then obtain M N where
    ih: "\<And>t. fold runAction acts t = t\<lparr>rules := rules t ++ M, presets := presets t ++ N\<rparr>"
    by blast
  show ?case
  proof (cases a)
    case (RegisterRule r)
    have "(rules t)(getOptionName r \<mapsto> r) ++ M = rules t ++ ([getOptionName r \<mapsto> r] ++ M)"
      for t :: engine
      by (rule map_upd_add)
    then have "\<forall>t. fold runAction (a # acts) t =
            t\<lparr>rules := rules t ++ ([getOptionName r \<mapsto> r] ++ M),
               presets := presets t ++ N\<rparr>"
      by (simp add: RegisterRule ih registerRule_def)
    then show ?thesis by blast
  next
    case (RegisterPreset n c)
    show ?thesis
    proof (cases "n = ''__proto__'' \<and> typeof c \<noteq> ''object'' \<and> typeof c \<noteq> ''function''")
      case True
      then have "\<forall>t. fold runAction (a # acts) t =
            t\<lparr>rules := rules t ++ M, presets := presets t ++ N\<rparr>"
        by (simp add: RegisterPreset ih registerPreset_def)
      then show ?thesis by blast
    next
      case False
      have "(presets t)(n \<mapsto> c) ++ N = presets t ++ ([n \<mapsto> c] ++ N)" for t :: engine
        by (rule map_upd_add)
      with False have "\<forall>t. fold runAction (a # acts) t =
            t\<lparr>rules := rules t ++ M, presets := presets t ++ ([n \<mapsto> c] ++ N)\<rparr>"
        by (auto simp: RegisterPreset ih registerPreset_def)
      then show ?thesis by blast
    qed
  qed
qed

lemma forEach_loadPlugin_shape:
  "\<exists>r M N. \<forall>t. forEach loadPlugin ps t =
     (r, t\<lparr>rules := rules t ++ M, presets := presets t ++ N\<rparr>)"
proof (induction ps)
  case Nil
  have "\<forall>t. forEach loadPlugin [] t =
          (Inr (), t\<lparr>rules := rules t ++ Map.empty, presets := presets t ++ Map.empty\<rparr>)"
    by simp
  then show ?case by blast
next
  case (Cons p ps)
  then obtain r M N where
    ih: "\<And>t. forEach loadPlugin ps t =
           (r, t\<lparr>rules := rules t ++ M, presets := presets t ++ N\<rparr>)"
    by blast
  show ?case
  proof (cases "typeof p = ''function''")
    case True
    then obtain acts where p: "p = JFun acts"
      by (cases p) auto
    obtain M' N' where
      f: "\<And>t. fold runAction acts t = t\<lparr>rules := rules t ++ M', presets := presets t ++ N'\<rparr>"
      using fold_runAction_shape [of acts] by blast
    have "\<forall>t. forEach loadPlugin (p # ps) t =
            (r, t\<lparr>rules := rules t ++ (M' ++ M), presets := presets t ++ (N' ++ N)\<rparr>)"
      by (simp add: p loadPlugin_JFun f ih)
    then show ?thesis by blast
  next
    case False
    have "\<forall>t. forEach loadPlugin (p # ps) t =
            (Inl (AssertionError ''plugin should be a function''),
             t\<lparr>rules := rules t ++ Map.empty, presets := presets t ++ Map.empty\<rparr>)"
      by (simp add: loadPlugin_not_function [OF False])
    then show ?thesis by blast
  qed
qed

lemma loadPlugins_shape:
  "\<exists>r M N. \<forall>t. loadPlugins config t =
     (r, t\<lparr>rules := rules t ++ M, presets := presets t ++ N\<rparr>)"
proof (cases "truthy (get config ''plugins'')")
  case True
  show ?thesis
  proof (cases "get config ''plugins''")
    case (JArr ps)
    with True forEach_loadPlugin_shape [of ps] show ?thesis
      by (simp add: loadPlugins_def)
  qed (use True in \<open>auto simp: loadPlugins_def
         intro!: exI [of _ "Inl (AssertionError ''plugins option requires array value'')"]
                 exI [of _ Map.empty]\<close>)
next
  case False
  then have "\<forall>t. loadPlugins config t =
          (Inr (), t\<lparr>rules := rules t ++ Map.empty, presets := presets t ++ Map.empty\<rparr>)"
    by (simp add: loadPlugins_def)
  then show ?thesis by blast
qed

text \<open>The other steps: each returns a result that depends on the engine through the presets
  at most, and leaves the engine alone but for one field that it may set.\<close>

lemma presetFound_presets:
  "presets t = presets s \<Longrightarrow> presetFound h t presetName = presetFound h s presetName"
  by (simp add: presetFound_def cong: option.case_cong jsval.case_cong)

lemma applyPreset_cases:
  "(\<exists>E. \<forall>t. applyPreset h config t = (Inl (E (presets t)), t))
   \<or> (\<forall>t. applyPreset h config t = (Inr [], t))"
proof (cases "truthy (get config ''preset'')")
  case True
  show ?thesis
  proof (cases "get config ''preset''")
    case (JStr presetName)
    let ?E = "\<lambda>ps. if presetFound h (Configuration\<lparr>presets := ps\<rparr>) presetName
                    then TypeError ''this.process(presetData)''
                    else AssertionError (notFound presetName)"
    have "presetFound h (Configuration\<lparr>presets := presets t\<rparr>) presetName
            = presetFound h t presetName" for t
      by (rule presetFound_presets) simp
    then have "\<forall>t. applyPreset h config t = (Inl (?E (presets t)), t)"
      using True by (simp add: applyPreset_def JStr)
    then show ?thesis by (intro disjI1 exI [of _ ?E])
  qed (use True in \<open>auto simp: applyPreset_def
         intro!: exI [of _ "\<lambda>ps. AssertionError ''preset option requires string value''"]\<close>)
next
  case False
  then show ?thesis by (simp add: applyPreset_def)
qed

lemma setFileExtensions_cases:
  "(\<exists>e. \<forall>t. setFileExtensions config t = (Inl e, t))
   \<or> (\<forall>t. setFileExtensions config t = (Inr (), t))
   \<or> (\<exists>X. \<forall>t. setFileExtensions config t = (Inr (), t\<lparr>fileExtensions := X\<rparr>))"
  by (cases "get config ''fileExtensions''") (auto simp: setFileExtensions_def)

lemma setExcludedFiles_cases:
  "(\<exists>e. \<forall>t. setExcludedFiles config t = (Inl e, t))
   \<or> (\<forall>t. setExcludedFiles config t = (Inr (), t))
   \<or> (\<exists>X. \<forall>t. setExcludedFiles config t = (Inr (), t\<lparr>excludedFiles := X\<rparr>))"
  by (cases "get config ''excludeFiles''") (auto simp: setExcludedFiles_def)

lemma loadAdditionalRules_cases:
  "(\<exists>e. \<forall>t. loadAdditionalRules config t = (Inl e, t))
   \<or> (\<forall>t. loadAdditionalRules config t = (Inr (), t))"
  by (cases "get config ''additionalRules''") (auto simp: loadAdditionalRules_def)

text \<open>Run on the engine it has left behind, the processor returns the same result and
  leaves the engine as it finds it.\<close>

lemma processConfig_again:
  "processConfig h config
     (snd (processConfig h config s)\<lparr>configuredRules := x, configureCalls := c\<rparr>)
     = (fst (processConfig h config s),
        snd (processConfig h config s)\<lparr>configuredRules := x, configureCalls := c\<rparr>)"
proof -
  obtain r M N where
    lp: "\<And>t. loadPlugins config t = (r, t\<lparr>rules := rules t ++ M, presets := presets t ++ N\<rparr>)"
    using loadPlugins_shape [of config] by blast
  show ?thesis
    using applyPreset_cases [of h config] setFileExtensions_cases [of config]
      setExcludedFiles_cases [of config] loadAdditionalRules_cases [of config]
    by (cases r) (elim disjE exE; simp add: processConfig_def lp map_add_twice)+
qed

lemma processConfig_configureCalls:
  "configureCalls (snd (processConfig h config s)) = configureCalls s"
proof -
  obtain r M N where
    lp: "\<And>t. loadPlugins config t = (r, t\<lparr>rules := rules t ++ M, presets := presets t ++ N\<rparr>)"
    using loadPlugins_shape [of config] by blast
  show ?thesis
    using applyPreset_cases [of h config] setFileExtensions_cases [of config]
      setExcludedFiles_cases [of config] loadAdditionalRules_cases [of config]
    by (cases r) (elim disjE exE; simp add: processConfig_def lp)+
qed

text \<open>The loop of \<^verbatim>\<open>load\<close> reads the rule registry only: on two engines with the same
  registry it ends alike and makes the same \<^verbatim>\<open>configure\<close> calls.\<close>

lemma configureRules_frame:
  "\<exists>res calls. \<forall>t. rules t = rules (s :: engine) \<longrightarrow>
     configureRules h rs ks un t = (res, t\<lparr>configureCalls := configureCalls t @ calls\<rparr>)"
proof (induction ks arbitrary: un)
  case Nil
  have "\<forall>t. rules t = rules s \<longrightarrow>
     configureRules h rs [] un t = (Inr un, t\<lparr>configureCalls := configureCalls t @ []\<rparr>)"
    by simp
  then show ?case by blast
next
  case (Cons k ks)
  have lk: "lookupRule h t k = lookupRule h s k" if "rules t = rules s" for t
    using that by (rule lookupRule_rules)
  show ?case
  proof (cases "lookupRule h s k")
    case (Value m)
    show ?thesis
    proof (cases "configureThrows h m (get rs k)")
      case None
      obtain res calls where ih: "\<And>t. rules t = rules s \<Longrightarrow>
          configureRules h rs ks un t = (res, t\<lparr>configureCalls := configureCalls t @ calls\<rparr>)"
        using Cons.IH [of un] by blast
      have "\<forall>t. rules t = rules s \<longrightarrow> configureRules h rs (k # ks) un t =
              (res, t\<lparr>configureCalls := configureCalls t @ ((m, get rs k) # calls)\<rparr>)"
        by (simp add: lk Value None configure_def ih)
      then show ?thesis by blast
    next
      case (Some e)
      have "\<forall>t. rules t = rules s \<longrightarrow> configureRules h rs (k # ks) un t =
              (Inl e, t\<lparr>configureCalls := configureCalls t @ [(m, get rs k)]\<rparr>)"
        by (simp add: lk Value Some configure_def)
      then show ?thesis by blast
    qed
  next
    case Truthy
    have "\<forall>t. rules t = rules s \<longrightarrow> configureRules h rs (k # ks) un t =
            (Inl (TypeError ''rule.configure(ruleSettings[optionName])''),
             t\<lparr>configureCalls := configureCalls t @ []\<rparr>)"
      by (simp add: lk Truthy)
    then show ?thesis by blast
  next
    case Nothing
    obtain res calls where ih: "\<And>t. rules t = rules s \<Longrightarrow>
        configureRules h rs ks (un @ [k]) t =
          (res, t\<lparr>configureCalls := configureCalls t @ calls\<rparr>)"
      using Cons.IH [of "un @ [k]"] by blast
    have "\<forall>t. rules t = rules s \<longrightarrow> configureRules h rs (k # ks) un t =
            (res, t\<lparr>configureCalls := configureCalls t @ calls\<rparr>)"
      by (simp add: lk Nothing ih)
    then show ?thesis by blast
  qed
qed

text \<open>
  Claim C9: two calls of \<^verbatim>\<open>load\<close> in a row with the same configuration, on a new engine,
  end alike, and the configured rules are the same after each. This holds from every engine
  state: the second call succeeds or fails exactly as the first did, makes the same
  \<^verbatim>\<open>configure\<close> calls (same rules, same settings, same order) once more, and changes
  nothing else in the engine, so \<^verbatim>\<open>getConfiguredRules()\<close> returns after the second call
  what it returned after the first.
\<close>

theorem load_twice_same:
  "\<exists>calls.
     configureCalls (snd (load h config s)) = configureCalls s @ calls
     \<and> fst (load h config (snd (load h config s))) = fst (load h config s)
     \<and> snd (load h config (snd (load h config s)))
         = (snd (load h config s))
             \<lparr>configureCalls := configureCalls (snd (load h config s)) @ calls\<rparr>
     \<and> getConfiguredRules (snd (load h config (snd (load h config s))))
         = getConfiguredRules (snd (load h config s))"
proof -
  obtain r1 s1 where pc: "processConfig h config s = (r1, s1)"
    by (cases "processConfig h config s")
  have cc: "configureCalls s1 = configureCalls s"
    using processConfig_configureCalls [of h config s] pc by simp
  show ?thesis
  proof (cases r1)
    case (Inl e)
    have l1: "load h config s = (Inl e, s1)"
      using pc Inl by (simp add: load_def)
    have "processConfig h config s1 = (Inl e, s1)"
      using processConfig_again [where h = h and config = config and s = s
                                   and x = "configuredRules s1" and c = "configureCalls s1"]
        pc Inl
      by simp
    then have l2: "load h config s1 = (Inl e, s1)"
      by (simp add: load_def)
    show ?thesis
      by (rule exI [of _ "[]"]) (simp add: l1 l2 cc)
  next
    case (Inr ruleSettings)
    have pc1: "processConfig h config s = (Inr ruleSettings, s1)"
      using pc Inr by simp
    obtain res calls where fr: "\<And>t. rules t = rules s1 \<Longrightarrow>
        configureRules h ruleSettings (keys ruleSettings) [] t =
          (res, t\<lparr>configureCalls := configureCalls t @ calls\<rparr>)"
      using configureRules_frame [of s1 h ruleSettings "keys ruleSettings" "[]"] by blast
    define x where "x = (case res of Inl e \<Rightarrow> configuredRules s1 | Inr un \<Rightarrow> None)"
    define s2 where "s2 = s1\<lparr>configuredRules := x, configureCalls := configureCalls s1 @ calls\<rparr>"
    define out :: "error + unit" where
      "out = (case res of Inl e \<Rightarrow> Inl e
              | Inr un \<Rightarrow> if 0 < length un
                          then Inl (Error (''Unsupported rules: '' @ join '', '' un))
                          else Inr ())"
    have pc2: "processConfig h config s2 = (Inr ruleSettings, s2)"
      unfolding s2_def
      using processConfig_again [where h = h and config = config and s = s and x = x
                                   and c = "configureCalls s1 @ calls"] pc1
      by simp
    have r2: "rules s2 = rules s1"
      by (simp add: s2_def)
    have l1: "load h config s = (out, s2)"
      by (cases res) (simp_all add: load_def pc1 fr x_def s2_def out_def)
    have l2: "load h config s2 = (out, s2\<lparr>configureCalls := configureCalls s2 @ calls\<rparr>)"
    proof (cases res)
      case (Inl e)
      then show ?thesis by (simp add: load_def pc2 fr [OF r2] out_def)
    next
      case (Inr un)
      then have "s2\<lparr>configureCalls := configureCalls s2 @ calls, configuredRules := None\<rparr>
                   = s2\<lparr>configureCalls := configureCalls s2 @ calls\<rparr>"
        by (simp add: s2_def x_def)
      with Inr show ?thesis by (simp add: load_def pc2 fr [OF r2] out_def)
    qed
    have a: "configureCalls (snd (load h config s)) = configureCalls s @ calls"
      by (simp add: l1 s2_def cc)
    have b: "fst (load h config (snd (load h config s))) = fst (load h config s)"
      by (simp add: l1 l2)
    have c: "snd (load h config (snd (load h config s)))
         = (snd (load h config s))
             \<lparr>configureCalls := configureCalls (snd (load h config s)) @ calls\<rparr>"
      by (simp add: l1 l2)
    have d: "getConfiguredRules (snd (load h config (snd (load h config s))))
         = getConfiguredRules (snd (load h config s))"
      unfolding c by (simp add: getConfiguredRules_def)
    from a b c d show ?thesis by blast
  qed
qed

end
